theory Spec2Isabelle
  imports Complex_Main "HOL-Library.Sublist" "HOL-Library.Product_Lexorder"
begin

section \<open>Strings\<close>

text \<open>
  A Python \<open>str\<close> is a sequence of code points. The model uses \<^typ>\<open>string\<close>, whose
  characters are the code points 0 to 255 (the Latin-1 block); on that block the
  character classes below are the ones Python uses. Titles with code points outside
  the block are not covered.
\<close>

definition code :: "char \<Rightarrow> nat" where
  "code c = of_char c"

text \<open>\<open>str.isspace\<close> on one character: TAB, LF, VT, FF, CR, the separators
  0x1C to 0x1F, the blank, NEL and the no-break space.\<close>

definition is_space :: "char \<Rightarrow> bool" where
  "is_space c = ((9 \<le> code c \<and> code c \<le> 13) \<or> (28 \<le> code c \<and> code c \<le> 32)
                  \<or> code c = 133 \<or> code c = 160)"

text \<open>The class \<open>\d\<close> of a \<open>str\<close> pattern: the decimal digits.\<close>

definition is_digit :: "char \<Rightarrow> bool" where
  "is_digit c = (48 \<le> code c \<and> code c \<le> 57)"

text \<open>\<open>str.lower\<close> on one character: A to Z, and the capital letters 0xC0 to 0xDE
  without the multiplication sign 0xD7, move up by 32.\<close>

definition lower_char :: "char \<Rightarrow> char" where
  "lower_char c =
     (if (65 \<le> code c \<and> code c \<le> 90) \<or> (192 \<le> code c \<and> code c \<le> 222 \<and> code c \<noteq> 215)
      then char_of (code c + 32) else c)"

definition py_lower :: "string \<Rightarrow> string" where
  "py_lower s = map lower_char s"

text \<open>\<open>str.strip()\<close> with no argument.\<close>

definition py_strip :: "string \<Rightarrow> string" where
  "py_strip s = rev (dropWhile is_space (rev (dropWhile is_space s)))"

text \<open>\<open>sub in s\<close> on strings.\<close>

fun py_in :: "string \<Rightarrow> string \<Rightarrow> bool" where
  "py_in sub [] = (sub = [])"
| "py_in sub (c # cs) = (prefix sub (c # cs) \<or> py_in sub cs)"

section \<open>Title normalizer\<close>

text \<open>
  \<open>re.sub(r"\(.*?\)", "", title)\<close>. At an opening bracket the lazy \<open>.*?\<close> runs to
  the first closing bracket; the dot does not match a line feed, so a line feed before
  that bracket makes the match fail at this position. \<open>paren_close\<close> takes the text
  after the opening bracket and gives what follows the match.
\<close>

fun paren_close :: "string \<Rightarrow> string option" where
  "paren_close [] = None"
| "paren_close (c # cs) =
     (if c = CHR '')'' then Some cs
      else if c = CHR 0x0A then None
      else paren_close cs)"

lemma paren_close_length: "paren_close cs = Some r \<Longrightarrow> length r < Suc (length cs)"
  by (induction cs) (auto split: if_splits)

function sub_parens :: "string \<Rightarrow> string" where
  "sub_parens [] = []"
| "sub_parens (c # cs) =
     (if c = CHR ''(''
      then (case paren_close cs of
              Some r \<Rightarrow> sub_parens r
            | None \<Rightarrow> c # sub_parens cs)
      else c # sub_parens cs)"
  by pat_completeness auto
termination
  by (relation "measure length") (auto dest: paren_close_length)

text \<open>
  \<open>re.sub(r"HD|Premiera|TV|\d{4}", "", title, flags=re.IGNORECASE)\<close>. A literal of
  the pattern matches a character with the same lowercase form. \<open>marker_len\<close> is the
  length of the match at the start of the text, the alternatives tried in order.
\<close>

fun ci_prefix :: "string \<Rightarrow> string \<Rightarrow> bool" where
  "ci_prefix [] s = True"
| "ci_prefix (p # ps) [] = False"
| "ci_prefix (p # ps) (c # cs) = (lower_char c = lower_char p \<and> ci_prefix ps cs)"

definition marker_len :: "string \<Rightarrow> nat option" where
  "marker_len s =
     (if ci_prefix ''HD'' s then Some 2
      else if ci_prefix ''Premiera'' s then Some 8
      else if ci_prefix ''TV'' s then Some 2
      else if 4 \<le> length s \<and> list_all is_digit (take 4 s) then Some 4
      else None)"

lemma marker_len_pos: "marker_len s = Some n \<Longrightarrow> 0 < n"
  by (auto simp: marker_len_def split: if_splits)

function sub_markers :: "string \<Rightarrow> string" where
  "sub_markers [] = []"
| "sub_markers (c # cs) =
     (case marker_len (c # cs) of
        Some n \<Rightarrow> sub_markers (drop n (c # cs))
      | None \<Rightarrow> c # sub_markers cs)"
  by pat_completeness auto
termination
  by (relation "measure length") (auto dest: marker_len_pos)

definition clean_title :: "string \<Rightarrow> string" where
  "clean_title title = py_strip (sub_markers (sub_parens title))"

text \<open>What the two substitutions look for: a bracketed group somewhere in the text, a
  marker somewhere in the text.\<close>

fun has_paren_group :: "string \<Rightarrow> bool" where
  "has_paren_group [] = False"
| "has_paren_group (c # cs) = ((c = CHR ''('' \<and> paren_close cs \<noteq> None) \<or> has_paren_group cs)"

fun has_marker :: "string \<Rightarrow> bool" where
  "has_marker [] = False"
| "has_marker (c # cs) = (marker_len (c # cs) \<noteq> None \<or> has_marker cs)"

section \<open>Errors\<close>

text \<open>The exceptions that the program can raise, as values.\<close>

datatype py_error =
  AttributeError | TypeError | KeyError | ValueError
  | ConnectionError | JSONDecodeError | ParseError | OperationalError

section \<open>Dates and times\<close>

text \<open>A naive \<open>datetime\<close>. Python orders two of them by their fields, from the year
  down to the microsecond.\<close>

record datetime =
  year :: nat
  month :: nat
  day :: nat
  hour :: nat
  minute :: nat
  second :: nat
  microsecond :: nat

definition dt_date :: "datetime \<Rightarrow> nat \<times> nat \<times> nat" where
  "dt_date d = (year d, month d, day d)"

definition dt_key :: "datetime \<Rightarrow> (nat \<times> nat \<times> nat) \<times> nat \<times> nat \<times> nat \<times> nat" where
  "dt_key d = (dt_date d, hour d, minute d, second d, microsecond d)"

definition dt_less :: "datetime \<Rightarrow> datetime \<Rightarrow> bool" where
  "dt_less a b = (dt_key a < dt_key b)"

text \<open>\<open>now.replace(hour=h, minute=0, second=0)\<close>: the date and the microsecond
  stay; an hour outside 0 to 23 raises.\<close>

definition dt_replace :: "datetime \<Rightarrow> int \<Rightarrow> py_error + datetime" where
  "dt_replace now h =
     (if 0 \<le> h \<and> h \<le> 23 then Inr (now\<lparr>hour := nat h, minute := 0, second := 0\<rparr>)
      else Inl ValueError)"

definition two_digits :: "nat \<Rightarrow> string" where
  "two_digits n = [char_of (48 + n div 10), char_of (48 + n mod 10)]"

text \<open>\<open>start.strftime("%H:%M")\<close>.\<close>

definition strftime_HM :: "datetime \<Rightarrow> string" where
  "strftime_HM d = two_digits (hour d) @ '':'' @ two_digits (minute d)"

subsection \<open>Parsing the start attribute\<close>

text \<open>
  \<open>datetime.strptime\<close> turns the format into a regular expression, one group of
  alternatives for each directive, and takes the first match at the start of the text,
  the alternatives tried in order with backtracking. A character class is a digit, a
  range or one literal character.
\<close>

datatype cc = Digit | Range char char | Lit char

fun cc_match :: "cc \<Rightarrow> char \<Rightarrow> bool" where
  "cc_match Digit c = is_digit c"
| "cc_match (Range a b) c = (code a \<le> code c \<and> code c \<le> code b)"
| "cc_match (Lit a) c = (c = a)"

fun alt_match :: "cc list \<Rightarrow> string \<Rightarrow> (string \<times> string) option" where
  "alt_match [] s = Some ([], s)"
| "alt_match (k # ks) [] = None"
| "alt_match (k # ks) (c # cs) =
     (if cc_match k c
      then (case alt_match ks cs of None \<Rightarrow> None | Some (m, r) \<Rightarrow> Some (c # m, r))
      else None)"

fun groups_match :: "cc list list list \<Rightarrow> string \<Rightarrow> (string list \<times> string) option"
  and alts_match :: "cc list list \<Rightarrow> cc list list list \<Rightarrow> string \<Rightarrow> (string list \<times> string) option"
where
  "groups_match [] s = Some ([], s)"
| "groups_match (g # gs) s = alts_match g gs s"
| "alts_match [] gs s = None"
| "alts_match (a # as) gs s =
     (case alt_match a s of
        None \<Rightarrow> alts_match as gs s
      | Some (m, r) \<Rightarrow>
          (case groups_match gs r of
             None \<Rightarrow> alts_match as gs s
           | Some (ms, r') \<Rightarrow> Some (m # ms, r')))"

text \<open>The groups of \<open>%Y%m%d%H%M%S\<close>:
  \<open>\d\d\d\d\<close>, \<open>1[0-2]|0[1-9]|[1-9]\<close>, \<open>3[0-1]|[1-2]\d|0[1-9]|[1-9]| [1-9]\<close>,
  \<open>2[0-3]|[0-1]\d|\d\<close>, \<open>[0-5]\d|\d\<close> and \<open>6[0-1]|[0-5]\d|\d\<close>.\<close>

definition strptime_format :: "cc list list list" where
  "strptime_format =
     [ [[Digit, Digit, Digit, Digit]],
       [[Lit CHR ''1'', Range CHR ''0'' CHR ''2''], [Lit CHR ''0'', Range CHR ''1'' CHR ''9''],
        [Range CHR ''1'' CHR ''9'']],
       [[Lit CHR ''3'', Range CHR ''0'' CHR ''1''], [Range CHR ''1'' CHR ''2'', Digit],
        [Lit CHR ''0'', Range CHR ''1'' CHR ''9''], [Range CHR ''1'' CHR ''9''],
        [Lit CHR '' '', Range CHR ''1'' CHR ''9'']],
       [[Lit CHR ''2'', Range CHR ''0'' CHR ''3''], [Range CHR ''0'' CHR ''1'', Digit], [Digit]],
       [[Range CHR ''0'' CHR ''5'', Digit], [Digit]],
       [[Lit CHR ''6'', Range CHR ''0'' CHR ''1''], [Range CHR ''0'' CHR ''5'', Digit], [Digit]] ]"

text \<open>\<open>int(text)\<close> on a matched group: the digits, a leading blank ignored.\<close>

definition int_of_digits :: "string \<Rightarrow> nat" where
  "int_of_digits s = foldl (\<lambda>n c. 10 * n + (code c - 48)) 0 (filter is_digit s)"

definition is_leap :: "nat \<Rightarrow> bool" where
  "is_leap y = (y mod 4 = 0 \<and> (y mod 100 \<noteq> 0 \<or> y mod 400 = 0))"

definition days_in_month :: "nat \<Rightarrow> nat \<Rightarrow> nat" where
  "days_in_month y m =
     (if m = 2 then (if is_leap y then 29 else 28)
      else if m = 4 \<or> m = 6 \<or> m = 9 \<or> m = 11 then 30 else 31)"

text \<open>
  \<open>parse_time(t) = datetime.strptime(t[:14], "%Y%m%d%H%M%S")\<close>. It raises
  \<open>ValueError\<close> when the text does not match, when text remains after the match,
  and when the fields are no date and time: the year 0, a day past the end of the
  month, a second of 60 or 61 (which the pattern lets through).
\<close>

definition parse_time :: "string \<Rightarrow> py_error + datetime" where
  "parse_time t =
     (case groups_match strptime_format (take 14 t) of
        Some ([Y, m, d, H, M, S], r) \<Rightarrow>
          (let y = int_of_digits Y; mo = int_of_digits m; dd = int_of_digits d;
               ss = int_of_digits S
           in if r \<noteq> [] \<or> y < 1 \<or> days_in_month y mo < dd \<or> 59 < ss then Inl ValueError
              else Inr \<lparr>year = y, month = mo, day = dd, hour = int_of_digits H,
                        minute = int_of_digits M, second = ss, microsecond = 0\<rparr>)
      | _ \<Rightarrow> Inl ValueError)"

section \<open>Metadata cache\<close>

text \<open>
  What \<open>get_cached_movie\<close> and \<open>search_tmdb\<close> return: the dictionary with the keys
  \<open>rating\<close>, \<open>poster\<close> and \<open>imdb_id\<close>. A rating is a number; the finite values of a
  Python \<open>float\<close> or \<open>int\<close> are rationals, ordered as Python orders them.
\<close>

record tmdb =
  rating :: rat
  poster :: "string option"
  imdb_id :: "string option"

text \<open>
  The table \<open>movies\<close> of the database file: its rows in insertion order, each a title
  and the three other columns. The file may have no such table yet, which is \<open>None\<close>.
\<close>

type_synonym table = "(string \<times> tmdb) list"

definition init_db :: "table option \<Rightarrow> table option" where
  "init_db d = (case d of None \<Rightarrow> Some [] | Some rows \<Rightarrow> Some rows)"

text \<open>\<open>SELECT ... WHERE title=?\<close> and \<open>fetchone\<close>: the first row with that title.\<close>

definition get_cached_movie :: "string \<Rightarrow> table option \<Rightarrow> py_error + tmdb option" where
  "get_cached_movie k d =
     (case d of None \<Rightarrow> Inl OperationalError | Some rows \<Rightarrow> Inr (map_of rows k))"

text \<open>\<open>INSERT OR REPLACE\<close>: the rows that conflict on the primary key are deleted,
  then the new row is inserted.\<close>

definition cache_movie ::
  "string \<Rightarrow> rat \<Rightarrow> string option \<Rightarrow> string option \<Rightarrow> table option \<Rightarrow> py_error + table option"
where
  "cache_movie k r p i d =
     (case d of
        None \<Rightarrow> Inl OperationalError
      | Some rows \<Rightarrow>
          Inr (Some (filter (\<lambda>row. fst row \<noteq> k) rows
                     @ [(k, \<lparr>rating = r, poster = p, imdb_id = i\<rparr>)])))"

section \<open>The outside world\<close>

text \<open>
  The state that the program changes is the table and the list of the HTTP requests
  issued so far. The replies of the two services and the two readings of the clock
  are given by the environment; a reply may depend on how many requests came before.
\<close>

datatype request = GetGuide | GetSearch string | GetExternalIds int

record state =
  db :: "table option"
  requests :: "request list"

text \<open>An entry of \<open>results\<close>, with the three fields the program reads; a field
  is \<open>None\<close> when the entry lacks it. A \<open>vote_average\<close> that is present is a number,
  as the service sends it.\<close>

record tmdb_result =
  vote_average :: "rat option"
  poster_path :: "string option"
  movie_id :: "int option"

text \<open>
  The reply to the search request: the request fails (\<open>requests.get\<close> raises), or
  it has a status and a body. The body is no JSON (\<open>r.json()\<close> raises), a JSON
  object without the key \<open>results\<close> (the subscript raises), or one with the list.
  The reply to the request for the external ids has its status ignored by the program;
  \<open>ExtIds i\<close> is a JSON object whose \<open>get("imdb_id")\<close> is \<open>i\<close>.
\<close>

datatype search_body = SearchNotJson | SearchNoResultsKey | SearchResults "tmdb_result list"

datatype search_reply = SearchFailed | SearchReply int search_body

datatype ext_reply = ExtFailed | ExtNotJson | ExtIds "string option"

text \<open>
  The guide as the program reads it: the \<open>programme\<close> children of the root, each
  with its first \<open>title\<close> child and its first \<open>category\<close> child (absent, or an
  element whose text is a string or \<open>None\<close>) and the attributes \<open>start\<close> and
  \<open>channel\<close>. The fetch can fail and the document can be malformed.
\<close>

datatype element = Element (elem_text: "string option")

record programme =
  title_elem :: "element option"
  category :: "element option"
  attr_start :: "string option"
  attr_channel :: "string option"

datatype guide_reply = GuideFailed | GuideMalformed | Guide "programme list"

text \<open>\<open>now1\<close> is the reading of the clock that gives \<open>today\<close>, \<open>now2\<close> the one
  that gives \<open>evening\<close>.\<close>

record env =
  guide_reply :: guide_reply
  search_reply :: "nat \<Rightarrow> string \<Rightarrow> search_reply"
  ext_reply :: "nat \<Rightarrow> int \<Rightarrow> ext_reply"
  now1 :: datetime
  now2 :: datetime

section \<open>Metadata resolver\<close>

definition search_tmdb :: "env \<Rightarrow> string \<Rightarrow> state \<Rightarrow> (py_error + tmdb option) \<times> state" where
  "search_tmdb e t st =
     (case get_cached_movie (py_lower t) (db st) of
        Inl err \<Rightarrow> (Inl err, st)
      | Inr (Some cached) \<Rightarrow> (Inr (Some cached), st)
      | Inr None \<Rightarrow>
          (let st1 = st\<lparr>requests := requests st @ [GetSearch t]\<rparr> in
           case search_reply e (length (requests st)) t of
             SearchFailed \<Rightarrow> (Inl ConnectionError, st1)
           | SearchReply status body \<Rightarrow>
               if status \<noteq> 200 then (Inr None, st1)
               else
                 (case body of
                    SearchNotJson \<Rightarrow> (Inl JSONDecodeError, st1)
                  | SearchNoResultsKey \<Rightarrow> (Inl KeyError, st1)
                  | SearchResults [] \<Rightarrow> (Inr None, st1)
                  | SearchResults (movie # _) \<Rightarrow>
                      (let r = (case vote_average movie of None \<Rightarrow> 0 | Some v \<Rightarrow> v);
                           p = (case poster_path movie of
                                  None \<Rightarrow> None
                                | Some pp \<Rightarrow>
                                    if pp = [] then None
                                    else Some (''https://image.tmdb.org/t/p/w500'' @ pp));
                           store = (\<lambda>i st2.
                              case cache_movie (py_lower t) r p i (db st2) of
                                Inl err \<Rightarrow> (Inl err, st2)
                              | Inr d \<Rightarrow>
                                  (Inr (Some \<lparr>rating = r, poster = p, imdb_id = i\<rparr>),
                                   st2\<lparr>db := d\<rparr>))
                       in case movie_id movie of
                            None \<Rightarrow> store None st1
                          | Some n \<Rightarrow>
                              if n = 0 then store None st1
                              else
                                (let st2 = st1\<lparr>requests := requests st1 @ [GetExternalIds n]\<rparr> in
                                 case ext_reply e (length (requests st1)) n of
                                   ExtFailed \<Rightarrow> (Inl ConnectionError, st2)
                                 | ExtNotJson \<Rightarrow> (Inl JSONDecodeError, st2)
                                 | ExtIds i \<Rightarrow> store i st2)))))"

section \<open>Programme filter\<close>

text \<open>An entry of the result list: the dictionary with the keys \<open>title\<close>, \<open>time\<close>,
  \<open>channel\<close>, \<open>rating\<close>, \<open>poster\<close> and \<open>imdb_id\<close>.\<close>

record movie = tmdb +
  title :: string
  time :: string
  channel :: "string option"

text \<open>The body of the loop for one programme: \<open>Inr None\<close> is \<open>continue\<close>,
  \<open>Inr (Some m)\<close> appends \<open>m\<close>.\<close>

definition programme_step ::
  "env \<Rightarrow> nat \<times> nat \<times> nat \<Rightarrow> datetime \<Rightarrow> programme \<Rightarrow> state \<Rightarrow> (py_error + movie option) \<times> state"
where
  "programme_step e today evening p st =
     (case title_elem p of
        None \<Rightarrow> (Inr None, st)
      | Some te \<Rightarrow>
          (case category p of
             None \<Rightarrow> (Inr None, st)
           | Some cat \<Rightarrow>
               (case elem_text cat of
                  None \<Rightarrow> (Inl AttributeError, st)
                | Some ctext \<Rightarrow>
                    if \<not> py_in ''film'' (py_lower ctext) then (Inr None, st)
                    else
                      (case attr_start p of
                         None \<Rightarrow> (Inl KeyError, st)
                       | Some s \<Rightarrow>
                           (case parse_time s of
                              Inl err \<Rightarrow> (Inl err, st)
                            | Inr start \<Rightarrow>
                                if dt_date start \<noteq> today \<or> dt_less start evening
                                then (Inr None, st)
                                else
                                  (case elem_text te of
                                     None \<Rightarrow> (Inl TypeError, st)
                                   | Some raw \<Rightarrow>
                                       (case search_tmdb e (clean_title raw) st of
                                          (Inl err, st') \<Rightarrow> (Inl err, st')
                                        | (Inr None, st') \<Rightarrow> (Inr None, st')
                                        | (Inr (Some m), st') \<Rightarrow>
                                            (Inr (Some \<lparr>rating = rating m, poster = poster m,
                                                         imdb_id = imdb_id m,
                                                         title = clean_title raw,
                                                         time = strftime_HM start,
                                                         channel = attr_channel p\<rparr>),
                                             st'))))))))"

fun scan_programmes ::
  "env \<Rightarrow> nat \<times> nat \<times> nat \<Rightarrow> datetime \<Rightarrow> programme list \<Rightarrow> state \<Rightarrow> (py_error + movie list) \<times> state"
where
  "scan_programmes e today evening [] st = (Inr [], st)"
| "scan_programmes e today evening (p # ps) st =
     (case programme_step e today evening p st of
        (Inl err, st') \<Rightarrow> (Inl err, st')
      | (Inr found, st') \<Rightarrow>
          (case scan_programmes e today evening ps st' of
             (Inl err, st'') \<Rightarrow> (Inl err, st'')
           | (Inr ms, st'') \<Rightarrow>
               (Inr (case found of None \<Rightarrow> ms | Some m \<Rightarrow> m # ms), st'')))"

text \<open>\<open>sorted(movies, key=lambda x: x["rating"], reverse=True)\<close>: the list is
  reversed, sorted stably by the key and reversed again.\<close>

definition sorted_reverse :: "('a \<Rightarrow> rat) \<Rightarrow> 'a list \<Rightarrow> 'a list" where
  "sorted_reverse k xs = rev (sort_key k (rev xs))"

definition load_movies_from_epg :: "env \<Rightarrow> int \<Rightarrow> state \<Rightarrow> (py_error + movie list) \<times> state" where
  "load_movies_from_epg e start_hour st =
     (let st0 = st\<lparr>requests := requests st @ [GetGuide]\<rparr> in
      case guide_reply e of
        GuideFailed \<Rightarrow> (Inl ConnectionError, st0)
      | GuideMalformed \<Rightarrow> (Inl ParseError, st0)
      | Guide programmes \<Rightarrow>
          (let today = dt_date (now1 e) in
           case dt_replace (now2 e) start_hour of
             Inl err \<Rightarrow> (Inl err, st0)
           | Inr evening \<Rightarrow>
               (case scan_programmes e today evening programmes st0 of
                  (Inl err, st') \<Rightarrow> (Inl err, st')
                | (Inr movies, st') \<Rightarrow> (Inr (sorted_reverse rating movies), st'))))"

section \<open>Presentation layer\<close>

text \<open>\<open>main\<close> up to the list that is rendered: the table is created, the guide is
  scanned and the movies below the minimum rating are dropped.\<close>

definition main :: "env \<Rightarrow> rat \<Rightarrow> int \<Rightarrow> state \<Rightarrow> (py_error + movie list) \<times> state" where
  "main e min_rating start_hour st =
     (case load_movies_from_epg e start_hour (st\<lparr>db := init_db (db st)\<rparr>) of
        (Inl err, st') \<Rightarrow> (Inl err, st')
      | (Inr movies, st') \<Rightarrow> (Inr (filter (\<lambda>m. min_rating \<le> rating m) movies), st'))"

section \<open>Vocabulary of the properties\<close>








section \<open>Example inputs\<close>

text \<open>A clock reading at noon of 1 January 2024, a guide entry for a film, a metadata
  service that knows two films (one of them without \<open>vote_average\<close>), answers one
  title with status 503 and finds nothing else, and a database with an empty table.\<close>

definition example_clock :: "nat \<Rightarrow> datetime" where
  "example_clock us =
     \<lparr>year = 2024, month = 1, day = 1, hour = 12, minute = 0, second = 0, microsecond = us\<rparr>"

definition example_programme :: "string \<Rightarrow> string \<Rightarrow> programme" where
  "example_programme raw s =
     \<lparr>title_elem = Some (Element (Some raw)),
      category = Some (Element (Some ''Film sensacyjny'')),
      attr_start = Some s, attr_channel = Some ''TVP1''\<rparr>"

definition example_search :: "string \<Rightarrow> search_reply" where
  "example_search q =
     (if q = ''Heat''
      then SearchReply 200 (SearchResults
             [\<lparr>vote_average = Some (79 / 10), poster_path = Some ''/heat.jpg'',
               movie_id = Some 949\<rparr>])
      else if q = ''Ronin''
      then SearchReply 200 (SearchResults
             [\<lparr>vote_average = None, poster_path = None, movie_id = Some 8195\<rparr>])
      else if q = ''Solaris'' then SearchReply 503 SearchNotJson
      else SearchReply 200 (SearchResults []))"

definition example_env :: "nat \<Rightarrow> programme list \<Rightarrow> env" where
  "example_env us ps =
     \<lparr>guide_reply = Guide ps, search_reply = (\<lambda>n. example_search),
      ext_reply = (\<lambda>n i. ExtIds (Some ''tt0113277'')),
      now1 = example_clock us, now2 = example_clock us\<rparr>"

definition empty_state :: state where
  "empty_state = \<lparr>db = Some [], requests = []\<rparr>"

section \<open>Properties of the title normalizer\<close>

lemma sub_parens_unchanged: "\<not> has_paren_group s \<Longrightarrow> sub_parens s = s"
  by (induction s) auto

lemma sub_markers_unchanged: "\<not> has_marker s \<Longrightarrow> sub_markers s = s"
  by (induction s) auto

lemma dropWhile_last: "dropWhile P xs \<noteq> [] \<Longrightarrow> last (dropWhile P xs) = last xs"
  by (induction xs) (auto split: if_splits)

lemma dropWhile_keeps: "xs \<noteq> [] \<Longrightarrow> \<not> P (hd xs) \<Longrightarrow> dropWhile P xs = xs"
  by (cases xs) auto

lemma py_strip_ends:
  "py_strip s = [] \<or> (\<not> is_space (hd (py_strip s)) \<and> \<not> is_space (last (py_strip s)))"
proof (cases "py_strip s = []")
  case True
  then show ?thesis by simp
next
  case False
  define u where "u = dropWhile is_space s"
  define v where "v = dropWhile is_space (rev u)"
  have t: "py_strip s = rev v" by (simp add: py_strip_def u_def v_def)
  with False have v: "v \<noteq> []" by simp
  then have u: "u \<noteq> []" by (auto simp: v_def)
  have "\<not> is_space (hd v)" using v unfolding v_def by (rule hd_dropWhile)
  moreover have "last v = last (rev u)" using v unfolding v_def by (rule dropWhile_last)
  moreover have "\<not> is_space (hd u)" using u unfolding u_def by (rule hd_dropWhile)
  ultimately show ?thesis using t v u by (simp add: last_rev hd_rev)
qed

lemma py_strip_unchanged:
  assumes "s = [] \<or> (\<not> is_space (hd s) \<and> \<not> is_space (last s))"
  shows "py_strip s = s"
proof (cases s)
  case Nil
  then show ?thesis by (simp add: py_strip_def)
next
  case (Cons c cs)
  with assms have h: "\<not> is_space (hd s)" and l: "\<not> is_space (last s)" by auto
  have 1: "dropWhile is_space s = s" using h Cons by simp
  have ne: "s \<noteq> []" using Cons by simp
  have "hd (rev s) = last s" by (simp add: hd_rev)
  then have "\<not> is_space (hd (rev s))" using l by simp
  moreover have "rev s \<noteq> []" using ne by simp
  ultimately have 2: "dropWhile is_space (rev s) = rev s" by (simp add: dropWhile_keeps)
  show ?thesis by (simp add: py_strip_def 1 2)
qed

text \<open>
  C8. The title \<open>Skazani na Shawshank (1994) HD\<close> normalizes to
  \<open>Skazani na Shawshank\<close>.
\<close>

theorem clean_title_example:
  "clean_title ''Skazani na Shawshank (1994) HD'' = ''Skazani na Shawshank''"
  by code_simp

text \<open>
  C2, as stated, fails: removing the markers can bring the pieces of a new marker
  together. \<open>HHDD\<close> normalizes to \<open>HD\<close>, and \<open>HD\<close> normalizes to the empty string.
\<close>

theorem clean_title_not_idempotent:
  "clean_title (clean_title ''HHDD'') \<noteq> clean_title ''HHDD''"
  by code_simp

text \<open>
  C2, amended. When the normalized title holds no bracketed group and no marker,
  normalizing it again returns it unchanged.
\<close>

theorem clean_title_fixed:
  assumes "\<not> has_paren_group (clean_title s)" and "\<not> has_marker (clean_title s)"
  shows "clean_title (clean_title s) = clean_title s"
proof -
  have "py_strip (clean_title s) = clean_title s"
    unfolding clean_title_def by (rule py_strip_unchanged) (rule py_strip_ends)
  with assms show ?thesis
    by (simp add: clean_title_def[of "clean_title s"] sub_parens_unchanged sub_markers_unchanged)
qed

text \<open>C2, amended, at the title of C8.\<close>

theorem clean_title_fixed_witness:
  "\<not> has_paren_group (clean_title ''Skazani na Shawshank (1994) HD'')
   \<and> \<not> has_marker (clean_title ''Skazani na Shawshank (1994) HD'')
   \<and> clean_title (clean_title ''Skazani na Shawshank (1994) HD'')
       = clean_title ''Skazani na Shawshank (1994) HD''"
proof -
  have a: "\<not> has_paren_group (clean_title ''Skazani na Shawshank (1994) HD'')" by code_simp
  have b: "\<not> has_marker (clean_title ''Skazani na Shawshank (1994) HD'')" by code_simp
  show ?thesis using a b clean_title_fixed [OF a b] by simp
qed

section \<open>Properties of the cache and the resolver\<close>

lemma map_of_filter_key:
  "map_of (filter (\<lambda>row. fst row \<noteq> k) rows) k' = (if k' = k then None else map_of rows k')"
  by (induction rows) auto

lemma map_of_put:
  "map_of (filter (\<lambda>row. fst row \<noteq> k) rows @ [(k, v)]) k' = (if k' = k then Some v else map_of rows k')"
  by (induction rows) auto


lemma get_other_after_cache_movie:
  "cache_movie k r p i d = Inr d' \<Longrightarrow> k' \<noteq> k \<Longrightarrow> get_cached_movie k' d' = get_cached_movie k' d"
  by (auto simp: cache_movie_def get_cached_movie_def map_of_put simp del: map_of_append split: option.splits)

lemma search_tmdb_db:
  assumes run: "search_tmdb e t st = (res, st')"
  shows "(st' = st \<and> get_cached_movie (py_lower t) (db st) = res)
         \<or> (db st' = db st \<and> (\<forall>c. res \<noteq> Inr (Some c)))
         \<or> (\<exists>c rows. db st = Some rows \<and> res = Inr (Some c)
              \<and> db st' = Some (filter (\<lambda>row. fst row \<noteq> py_lower t) rows @ [(py_lower t, c)]))"
proof (cases "get_cached_movie (py_lower t) (db st)")
  case (Inl err)
  with run show ?thesis by (simp add: search_tmdb_def)
next
  case (Inr hit)
  show ?thesis
  proof (cases hit)
    case (Some c)
    with Inr run show ?thesis by (simp add: search_tmdb_def)
  next
    case None
    with Inr have miss: "get_cached_movie (py_lower t) (db st) = Inr None" by simp
    then obtain rows where rows: "db st = Some rows"
      by (auto simp: get_cached_movie_def split: option.splits)
    show ?thesis
    proof (cases "search_reply e (length (requests st)) t")
      case SearchFailed
      with miss run show ?thesis by (auto simp: search_tmdb_def Let_def)
    next
      case (SearchReply status body)
      show ?thesis
      proof (cases "status = 200")
        case False
        with miss run SearchReply show ?thesis by (auto simp: search_tmdb_def Let_def)
      next
        case True
        show ?thesis
        proof (cases body)
          case SearchNotJson
          with miss run SearchReply True show ?thesis by (auto simp: search_tmdb_def Let_def)
        next
          case SearchNoResultsKey
          with miss run SearchReply True show ?thesis by (auto simp: search_tmdb_def Let_def)
        next
          case (SearchResults rs)
          show ?thesis
          proof (cases rs)
            case Nil
            with miss run SearchReply True SearchResults show ?thesis
              by (auto simp: search_tmdb_def Let_def)
          next
            case (Cons m rest)
            with miss run SearchReply True SearchResults rows show ?thesis
              by (simp add: search_tmdb_def Let_def cache_movie_def
                       split: option.splits if_splits ext_reply.splits) auto
          qed
        qed
      qed
    qed
  qed
qed


lemma search_tmdb_result_cached:
  assumes "search_tmdb e t st = (Inr (Some c), st')"
  shows "get_cached_movie (py_lower t) (db st') = Inr (Some c)"
  using search_tmdb_db [OF assms]
  by (auto simp: get_cached_movie_def map_of_put simp del: map_of_append)

text \<open>
  C3. When the table holds a row under the lowercase form of the title, \<open>search_tmdb\<close>
  returns that row and leaves the state as it was: no request is issued and the table
  is not written.
\<close>

theorem search_tmdb_cached:
  assumes "get_cached_movie (py_lower t) (db st) = Inr (Some c)"
  shows "search_tmdb e t st = (Inr (Some c), st)"
  using assms by (simp add: search_tmdb_def)

text \<open>C3 at a table that holds \<open>heat\<close>.\<close>

theorem search_tmdb_cached_witness:
  "get_cached_movie (py_lower ''Heat'')
      (db \<lparr>db = Some [(''heat'', \<lparr>rating = 79 / 10, poster = None, imdb_id = None\<rparr>)],
           requests = []\<rparr>)
     = Inr (Some \<lparr>rating = 79 / 10, poster = None, imdb_id = None\<rparr>)
   \<and> search_tmdb (example_env 1 []) ''Heat''
        \<lparr>db = Some [(''heat'', \<lparr>rating = 79 / 10, poster = None, imdb_id = None\<rparr>)],
         requests = []\<rparr>
     = (Inr (Some \<lparr>rating = 79 / 10, poster = None, imdb_id = None\<rparr>),
        \<lparr>db = Some [(''heat'', \<lparr>rating = 79 / 10, poster = None, imdb_id = None\<rparr>)],
         requests = []\<rparr>)"
proof -
  have hit: "get_cached_movie (py_lower ''Heat'')
      (db \<lparr>db = Some [(''heat'', \<lparr>rating = 79 / 10, poster = None, imdb_id = None\<rparr>)],
           requests = []\<rparr>)
     = Inr (Some \<lparr>rating = 79 / 10, poster = None, imdb_id = None\<rparr>)"
    by code_simp
  show ?thesis using hit search_tmdb_cached [OF hit, of "example_env 1 []"] by simp
qed

lemma search_tmdb_twice:
  assumes "search_tmdb e t st = (Inr (Some c), st')"
  shows "search_tmdb e' t st' = (Inr (Some c), st')"
  using search_tmdb_result_cached [OF assms] by (simp add: search_tmdb_def)

text \<open>
  C6. After a miss in the cache, a search reply with a status other than 200, or with
  status 200 and an empty list of results, makes \<open>search_tmdb\<close> return \<open>None\<close>, and
  the table is as before.
\<close>

theorem search_tmdb_absent:
  assumes miss: "get_cached_movie (py_lower t) (db st) = Inr None"
    and reply: "search_reply e (length (requests st)) t = SearchReply status body"
    and none: "status \<noteq> 200 \<or> body = SearchResults []"
  shows "fst (search_tmdb e t st) = Inr None \<and> db (snd (search_tmdb e t st)) = db st"
  using assms by (auto simp: search_tmdb_def Let_def)

text \<open>C6 at a title answered with status 503 and at a title with no results.\<close>

theorem search_tmdb_absent_witness:
  "get_cached_movie (py_lower ''Solaris'') (db empty_state) = Inr None
   \<and> search_reply (example_env 1 []) (length (requests empty_state)) ''Solaris''
       = SearchReply 503 SearchNotJson
   \<and> get_cached_movie (py_lower ''Stalker'') (db empty_state) = Inr None
   \<and> search_reply (example_env 1 []) (length (requests empty_state)) ''Stalker''
       = SearchReply 200 (SearchResults [])
   \<and> fst (search_tmdb (example_env 1 []) ''Solaris'' empty_state) = Inr None
   \<and> db (snd (search_tmdb (example_env 1 []) ''Solaris'' empty_state)) = db empty_state
   \<and> fst (search_tmdb (example_env 1 []) ''Stalker'' empty_state) = Inr None
   \<and> db (snd (search_tmdb (example_env 1 []) ''Stalker'' empty_state)) = db empty_state"
proof -
  have m1: "get_cached_movie (py_lower ''Solaris'') (db empty_state) = Inr None" by code_simp
  have r1: "search_reply (example_env 1 []) (length (requests empty_state)) ''Solaris''
       = SearchReply 503 SearchNotJson" by code_simp
  have m2: "get_cached_movie (py_lower ''Stalker'') (db empty_state) = Inr None" by code_simp
  have r2: "search_reply (example_env 1 []) (length (requests empty_state)) ''Stalker''
       = SearchReply 200 (SearchResults [])" by code_simp
  show ?thesis
    using m1 r1 m2 r2 search_tmdb_absent [OF m1 r1] search_tmdb_absent [OF m2 r2]
    by simp
qed

section \<open>Properties of the programme filter\<close>





lemma sorted_reverse_desc: "sorted_wrt (\<lambda>a b. k b \<le> k a) (sorted_reverse k xs)"
proof -
  have "sorted (map k (sort_key k (rev xs)))" by (rule sorted_sort_key)
  then have "sorted_wrt (\<lambda>a b. k a \<le> k b) (sort_key k (rev xs))" by (simp add: sorted_map)
  then show ?thesis by (simp add: sorted_reverse_def sorted_wrt_rev)
qed





text \<open>
  C1 on the code. The clock reads some microseconds past the second, as it nearly
  always does, and the hour is 18. A film that starts today at 17:59 is left out. A
  film that starts today at 18:00 sharp is left out as well: \<open>replace\<close> resets the
  minute and the second of the threshold and keeps the microsecond of the clock, so
  the threshold lies just after 18:00:00. Only when the clock reads a whole second is
  the film at 18:00 in the result.
\<close>

theorem load_movies_at_threshold:
  "fst (load_movies_from_epg
          (example_env 1 [example_programme ''Heat (1995) HD'' ''20240101175900 +0100''])
          18 empty_state) = Inr []
   \<and> fst (load_movies_from_epg
          (example_env 1 [example_programme ''Heat (1995) HD'' ''20240101180000 +0100''])
          18 empty_state) = Inr []
   \<and> fst (load_movies_from_epg
          (example_env 0 [example_programme ''Heat (1995) HD'' ''20240101180000 +0100''])
          18 empty_state)
       = Inr [\<lparr>rating = 79 / 10, poster = Some ''https://image.tmdb.org/t/p/w500/heat.jpg'',
        imdb_id = Some ''tt0113277'', title = ''Heat'', time = ''18:00'',
        channel = Some ''TVP1''\<rparr>]"
  by code_simp



text \<open>
  C5. The list that \<open>load_movies_from_epg\<close> returns and the list that is left in
  \<open>main\<close> after the minimum-rating filter are in non-increasing order of rating:
  the rating of an element is at least the rating of every later element, so of the
  next one.
\<close>

theorem movies_sorted_by_rating:
  "(fst (load_movies_from_epg e start_hour st) = Inr movies
      \<longrightarrow> sorted_wrt (\<lambda>a b. rating b \<le> rating a) movies)
   \<and> (fst (main e min_rating start_hour st) = Inr shown
      \<longrightarrow> sorted_wrt (\<lambda>a b. rating b \<le> rating a) shown)"
proof -
  have load: "sorted_wrt (\<lambda>a b. rating b \<le> rating a) ms"
    if "load_movies_from_epg e start_hour s = (Inr ms, s')" for s s' ms
    using that
    by (auto simp: load_movies_from_epg_def Let_def sorted_reverse_desc
             split: guide_reply.splits sum.splits prod.splits)
  have 1: "sorted_wrt (\<lambda>a b. rating b \<le> rating a) movies"
    if "fst (load_movies_from_epg e start_hour st) = Inr movies"
    using that load [of st movies "snd (load_movies_from_epg e start_hour st)"]
    by (cases "load_movies_from_epg e start_hour st") auto
  have 2: "sorted_wrt (\<lambda>a b. rating b \<le> rating a) shown"
    if "fst (main e min_rating start_hour st) = Inr shown"
    using that
    by (auto simp: main_def sorted_wrt_filter split: prod.splits sum.splits dest!: load)
  from 1 2 show ?thesis by blast
qed

text \<open>C5 at a guide with an unrated film at 18:30 and a rated one at 20:00.\<close>

theorem movies_sorted_by_rating_witness:
  "fst (load_movies_from_epg (example_env 1 [example_programme ''Ronin TV'' ''20240101183000 +0100'', example_programme ''Heat (1995) HD'' ''20240101200000 +0100'']) 18 empty_state)
     = Inr [\<lparr>rating = 79 / 10, poster = Some ''https://image.tmdb.org/t/p/w500/heat.jpg'',
        imdb_id = Some ''tt0113277'', title = ''Heat'', time = ''20:00'',
        channel = Some ''TVP1''\<rparr>,
            \<lparr>rating = 0, poster = None, imdb_id = Some ''tt0113277'', title = ''Ronin'',
        time = ''18:30'', channel = Some ''TVP1''\<rparr>]
   \<and> fst (main (example_env 1 [example_programme ''Ronin TV'' ''20240101183000 +0100'', example_programme ''Heat (1995) HD'' ''20240101200000 +0100'']) (13 / 2) 18 \<lparr>db = None, requests = []\<rparr>)
     = Inr [\<lparr>rating = 79 / 10, poster = Some ''https://image.tmdb.org/t/p/w500/heat.jpg'',
        imdb_id = Some ''tt0113277'', title = ''Heat'', time = ''20:00'',
        channel = Some ''TVP1''\<rparr>]
   \<and> sorted_wrt (\<lambda>a b. rating b \<le> rating a)
       [\<lparr>rating = 79 / 10, poster = Some ''https://image.tmdb.org/t/p/w500/heat.jpg'',
        imdb_id = Some ''tt0113277'', title = ''Heat'', time = ''20:00'',
        channel = Some ''TVP1''\<rparr>,
        \<lparr>rating = 0, poster = None, imdb_id = Some ''tt0113277'', title = ''Ronin'',
        time = ''18:30'', channel = Some ''TVP1''\<rparr>]
   \<and> sorted_wrt (\<lambda>a b. rating b \<le> rating a)
       [\<lparr>rating = 79 / 10, poster = Some ''https://image.tmdb.org/t/p/w500/heat.jpg'',
        imdb_id = Some ''tt0113277'', title = ''Heat'', time = ''20:00'',
        channel = Some ''TVP1''\<rparr>]"
proof -
  have run: "fst (load_movies_from_epg (example_env 1 [example_programme ''Ronin TV'' ''20240101183000 +0100'', example_programme ''Heat (1995) HD'' ''20240101200000 +0100'']) 18 empty_state)
     = Inr [\<lparr>rating = 79 / 10, poster = Some ''https://image.tmdb.org/t/p/w500/heat.jpg'',
        imdb_id = Some ''tt0113277'', title = ''Heat'', time = ''20:00'',
        channel = Some ''TVP1''\<rparr>,
            \<lparr>rating = 0, poster = None, imdb_id = Some ''tt0113277'', title = ''Ronin'',
        time = ''18:30'', channel = Some ''TVP1''\<rparr>]"
    by code_simp
  have shown: "fst (main (example_env 1 [example_programme ''Ronin TV'' ''20240101183000 +0100'', example_programme ''Heat (1995) HD'' ''20240101200000 +0100'']) (13 / 2) 18 \<lparr>db = None, requests = []\<rparr>)
     = Inr [\<lparr>rating = 79 / 10, poster = Some ''https://image.tmdb.org/t/p/w500/heat.jpg'',
        imdb_id = Some ''tt0113277'', title = ''Heat'', time = ''20:00'',
        channel = Some ''TVP1''\<rparr>]"
    by code_simp
  show ?thesis
    using run shown
      movies_sorted_by_rating [of "example_env 1 [example_programme ''Ronin TV'' ''20240101183000 +0100'', example_programme ''Heat (1995) HD'' ''20240101200000 +0100'']" 18 empty_state
        "[\<lparr>rating = 79 / 10, poster = Some ''https://image.tmdb.org/t/p/w500/heat.jpg'',
        imdb_id = Some ''tt0113277'', title = ''Heat'', time = ''20:00'',
        channel = Some ''TVP1''\<rparr>,
          \<lparr>rating = 0, poster = None, imdb_id = Some ''tt0113277'', title = ''Ronin'',
        time = ''18:30'', channel = Some ''TVP1''\<rparr>]" "13 / 2" "[]"]
      movies_sorted_by_rating [of "example_env 1 [example_programme ''Ronin TV'' ''20240101183000 +0100'', example_programme ''Heat (1995) HD'' ''20240101200000 +0100'']" 18 "\<lparr>db = None, requests = []\<rparr>"
        "[]" "13 / 2" "[\<lparr>rating = 79 / 10, poster = Some ''https://image.tmdb.org/t/p/w500/heat.jpg'',
        imdb_id = Some ''tt0113277'', title = ''Heat'', time = ''20:00'',
        channel = Some ''TVP1''\<rparr>]"]
    by simp
qed

text \<open>
  C9, as stated, fails: the check for a title element comes first, so a programme
  with no title element is skipped before its category is read, also when the
  category element has no text.
\<close>

theorem untitled_empty_category_skipped:
  "fst (load_movies_from_epg
          (example_env 1
             [\<lparr>title_elem = None, category = Some (Element None),
             attr_start = Some ''20240101200000 +0100'', attr_channel = Some ''TVP1''\<rparr>])
          18 empty_state) = Inr []"
  by code_simp

lemma programme_step_empty_category:
  assumes "title_elem p \<noteq> None" and "category p = Some (Element None)"
  shows "programme_step e today evening p st = (Inl AttributeError, st)"
  using assms by (auto simp: programme_step_def split: option.splits)

lemma scan_programmes_raises:
  assumes "p \<in> set ps" and "title_elem p \<noteq> None" and "category p = Some (Element None)"
  shows "\<exists>err. fst (scan_programmes e today evening ps st) = Inl err"
  using assms(1)
proof (induction ps arbitrary: st)
  case Nil
  then show ?case by simp
next
  case (Cons q ps)
  show ?case
  proof (cases "q = p")
    case True
    then show ?thesis by (simp add: programme_step_empty_category [OF assms(2,3)])
  next
    case False
    with Cons.prems have "p \<in> set ps" by simp
    from Cons.IH [OF this] show ?thesis
      by (auto split: prod.splits sum.splits) (metis fst_conv sum.distinct(1))
  qed
qed

text \<open>
  C9, amended. If the guide holds a programme that has a title element and whose
  category element is present with no text, \<open>load_movies_from_epg\<close> raises an error
  and returns no list.
\<close>

theorem empty_category_raises:
  assumes "guide_reply e = Guide programmes" and "p \<in> set programmes"
    and "title_elem p \<noteq> None" and "category p = Some (Element None)"
  shows "\<exists>err. fst (load_movies_from_epg e start_hour st) = Inl err"
proof (cases "dt_replace (now2 e) start_hour")
  case (Inl err)
  with assms(1) show ?thesis by (simp add: load_movies_from_epg_def Let_def)
next
  case (Inr evening)
  from scan_programmes_raises [OF assms(2,3,4)] obtain err where
    "fst (scan_programmes e (dt_date (now1 e)) evening programmes
            (st\<lparr>requests := requests st @ [GetGuide]\<rparr>)) = Inl err"
    by blast
  with assms(1) Inr show ?thesis
    by (auto simp: load_movies_from_epg_def Let_def split: prod.splits sum.splits)
qed

text \<open>C9, amended, at a guide with one such programme.\<close>

theorem empty_category_raises_witness:
  "guide_reply (example_env 1 [\<lparr>title_elem = Some (Element (Some ''Heat'')), category = Some (Element None),
        attr_start = Some ''20240101200000 +0100'', attr_channel = Some ''TVP1''\<rparr>]) = Guide [\<lparr>title_elem = Some (Element (Some ''Heat'')), category = Some (Element None),
        attr_start = Some ''20240101200000 +0100'', attr_channel = Some ''TVP1''\<rparr>]
   \<and> title_elem \<lparr>title_elem = Some (Element (Some ''Heat'')), category = Some (Element None),
        attr_start = Some ''20240101200000 +0100'', attr_channel = Some ''TVP1''\<rparr> \<noteq> None
   \<and> category \<lparr>title_elem = Some (Element (Some ''Heat'')), category = Some (Element None),
        attr_start = Some ''20240101200000 +0100'', attr_channel = Some ''TVP1''\<rparr> = Some (Element None)
   \<and> (\<exists>err. fst (load_movies_from_epg (example_env 1 [\<lparr>title_elem = Some (Element (Some ''Heat'')), category = Some (Element None),
        attr_start = Some ''20240101200000 +0100'', attr_channel = Some ''TVP1''\<rparr>]) 18 empty_state) = Inl err)"
proof -
  have guide: "guide_reply (example_env 1 [\<lparr>title_elem = Some (Element (Some ''Heat'')), category = Some (Element None),
        attr_start = Some ''20240101200000 +0100'', attr_channel = Some ''TVP1''\<rparr>]) = Guide [\<lparr>title_elem = Some (Element (Some ''Heat'')), category = Some (Element None),
        attr_start = Some ''20240101200000 +0100'', attr_channel = Some ''TVP1''\<rparr>]"
    by (simp add: example_env_def)
  have mem: "\<lparr>title_elem = Some (Element (Some ''Heat'')), category = Some (Element None),
        attr_start = Some ''20240101200000 +0100'', attr_channel = Some ''TVP1''\<rparr> \<in> set [\<lparr>title_elem = Some (Element (Some ''Heat'')), category = Some (Element None),
        attr_start = Some ''20240101200000 +0100'', attr_channel = Some ''TVP1''\<rparr>]"
    by simp
  have titled: "title_elem \<lparr>title_elem = Some (Element (Some ''Heat'')), category = Some (Element None),
        attr_start = Some ''20240101200000 +0100'', attr_channel = Some ''TVP1''\<rparr> \<noteq> None"
    by simp
  have empty: "category \<lparr>title_elem = Some (Element (Some ''Heat'')), category = Some (Element None),
        attr_start = Some ''20240101200000 +0100'', attr_channel = Some ''TVP1''\<rparr> = Some (Element None)"
    by simp
  show ?thesis
    using guide titled empty empty_category_raises [OF guide mem titled empty, of 18 empty_state]
    by simp
qed

section \<open>Properties of the cache under the pipeline\<close>









end
